theory Spec2Isabelle
  imports Complex_Main "HOL-Library.AList"
begin

section \<open>Python values and strings\<close>

text \<open>
  The pipeline passes dictionaries whose values are whatever the classification service
  put into its JSON reply, so values are modelled as a datatype of JSON-shaped Python
  values. A nested dictionary is an association list in insertion order, read with
  \<open>map_of\<close> and written with \<open>AList.update\<close> (an existing key keeps its place, a new
  key goes to the end, as in Python). A top-level dictionary is a map.

  Text is a \<open>string\<close>; the character classes below are the ASCII part of Python's
  classes, which is all that the keyword lists and the patterns of the source mention.
\<close>

datatype pyval =
    PNone
  | PBool bool
  | PNum rat
  | PStr string
  | PList "pyval list"
  | PDict "(string \<times> pyval) list"

type_synonym pydict = "string \<rightharpoonup> pyval"

datatype exn = TypeError | AttributeError | KeyError string | ValueError | DatabaseError | ServiceError

text \<open>Truth value of a Python object, as \<open>if x\<close> and \<open>not x\<close> read it.\<close>

fun truthy :: "pyval \<Rightarrow> bool" where
  "truthy PNone = False"
| "truthy (PBool b) = b"
| "truthy (PNum q) = (q \<noteq> 0)"
| "truthy (PStr s) = (s \<noteq> [])"
| "truthy (PList xs) = (xs \<noteq> [])"
| "truthy (PDict kvs) = (kvs \<noteq> [])"

text \<open>\<open>d.get(k)\<close> is \<open>None\<close> for a missing key, which is false.\<close>

definition truthy_get :: "pyval option \<Rightarrow> bool" where
  "truthy_get v = (case v of None \<Rightarrow> False | Some x \<Rightarrow> truthy x)"

text \<open>Lists and dictionaries cannot be dictionary keys: looking one up raises TypeError.\<close>

fun hashable :: "pyval \<Rightarrow> bool" where
  "hashable (PList xs) = False"
| "hashable (PDict kvs) = False"
| "hashable v = True"

definition upper_letters :: string where
  "upper_letters = ''ABCDEFGHIJKLMNOPQRSTUVWXYZ''"

definition lower_letters :: string where
  "lower_letters = ''abcdefghijklmnopqrstuvwxyz''"

definition digit_chars :: string where
  "digit_chars = ''0123456789''"

definition space_chars :: string where
  "space_chars = [CHR '' '', CHR 0x09, CHR 0x0A, CHR 0x0B, CHR 0x0C, CHR 0x0D,
                  CHR 0x1C, CHR 0x1D, CHR 0x1E, CHR 0x1F]"

definition lower_char :: "char \<Rightarrow> char" where
  "lower_char c = (case map_of (zip upper_letters lower_letters) c of Some d \<Rightarrow> d | None \<Rightarrow> c)"

definition lower :: "string \<Rightarrow> string" where
  "lower s = map lower_char s"

text \<open>\<open>w in text\<close> on strings: \<open>w\<close> occurs as a contiguous piece of \<open>text\<close>.\<close>

fun starts_with :: "string \<Rightarrow> string \<Rightarrow> bool" where
  "starts_with [] t = True"
| "starts_with (a # w) [] = False"
| "starts_with (a # w) (b # t) = (a = b \<and> starts_with w t)"

fun contains :: "string \<Rightarrow> string \<Rightarrow> bool" where
  "contains w [] = (w = [])"
| "contains w (c # t) = (starts_with w (c # t) \<or> contains w t)"

text \<open>\<open>any(word in text for word in words)\<close>.\<close>

definition any_in :: "string list \<Rightarrow> string \<Rightarrow> bool" where
  "any_in ws t = list_ex (\<lambda>w. contains w t) ws"

definition strip :: "string \<Rightarrow> string" where
  "strip s = rev (dropWhile (\<lambda>c. List.member space_chars c)
               (rev (dropWhile (\<lambda>c. List.member space_chars c) s)))"

section \<open>Regular expressions as the source uses them\<close>

text \<open>
  Python's \<open>re\<close> is a backtracking matcher: a greedy quantifier first tries to take more,
  an alternation tries its branches from left to right, and \<open>re.search\<close> returns the
  first success at the leftmost position that has one. \<open>rmatch r s\<close> lists, in the order
  the matcher tries them, the rests of \<open>s\<close> after each way \<open>r\<close> can match a prefix of \<open>s\<close>.
\<close>

datatype cclass =
    Digit           \<comment> \<open>\<open>\d\<close> and \<open>[0-9]\<close>\<close>
  | Word            \<comment> \<open>\<open>\w\<close>\<close>
  | Space           \<comment> \<open>\<open>\s\<close>\<close>
  | Sep             \<comment> \<open>\<open>[-.\s]\<close>\<close>
  | Only char       \<comment> \<open>a literal character\<close>
  | OnlyCI char     \<comment> \<open>a literal character under \<open>re.IGNORECASE\<close>\<close>
  | Except char     \<comment> \<open>\<open>[^c]\<close>\<close>

fun in_class :: "cclass \<Rightarrow> char \<Rightarrow> bool" where
  "in_class Digit c = List.member digit_chars c"
| "in_class Word c = (List.member lower_letters c \<or> List.member upper_letters c
                      \<or> List.member digit_chars c \<or> c = CHR ''_'')"
| "in_class Space c = List.member space_chars c"
| "in_class Sep c = (c = CHR ''-'' \<or> c = CHR ''.'' \<or> List.member space_chars c)"
| "in_class (Only a) c = (c = a)"
| "in_class (OnlyCI a) c = (lower_char c = lower_char a)"
| "in_class (Except a) c = (c \<noteq> a)"

datatype rx =
    Eps
  | One cclass
  | Cat rx rx
  | Alt rx rx
  | Opt rx          \<comment> \<open>greedy \<open>r?\<close>\<close>
  | Star cclass     \<comment> \<open>greedy \<open>c*\<close> on a character class\<close>

fun star_rests :: "cclass \<Rightarrow> string \<Rightarrow> string list" where
  "star_rests k [] = [[]]"
| "star_rests k (c # s) = (if in_class k c then star_rests k s @ [c # s] else [c # s])"

fun rmatch :: "rx \<Rightarrow> string \<Rightarrow> string list" where
  "rmatch Eps s = [s]"
| "rmatch (One k) s = (case s of [] \<Rightarrow> [] | c # t \<Rightarrow> if in_class k c then [t] else [])"
| "rmatch (Cat a b) s = concat (map (rmatch b) (rmatch a s))"
| "rmatch (Alt a b) s = rmatch a s @ rmatch b s"
| "rmatch (Opt a) s = rmatch a s @ [s]"
| "rmatch (Star k) s = star_rests k s"

definition Plus :: "cclass \<Rightarrow> rx" where
  "Plus k = Cat (One k) (Star k)"

fun Rep :: "nat \<Rightarrow> cclass \<Rightarrow> rx" where
  "Rep 0 k = Eps"
| "Rep (Suc n) k = Cat (One k) (Rep n k)"

fun Seq :: "rx list \<Rightarrow> rx" where
  "Seq [] = Eps"
| "Seq (r # rs) = Cat r (Seq rs)"

definition lit :: "string \<Rightarrow> rx" where
  "lit s = Seq (map (\<lambda>c. One (Only c)) s)"

definition lit_ci :: "string \<Rightarrow> rx" where
  "lit_ci s = Seq (map (\<lambda>c. One (OnlyCI c)) s)"

text \<open>
  Every pattern of the source with a group has the shape \<open>pre(grp)\<close>: the group ends the
  pattern. \<open>first_group\<close> walks the ways \<open>pre\<close> matched, in order, and returns what the
  group took at the first one where the group matches; \<open>search\<close> is
  \<open>re.search(...).group(1)\<close>, \<open>None\<close> when there is no match.
\<close>

fun first_group :: "rx \<Rightarrow> string list \<Rightarrow> string option" where
  "first_group g [] = None"
| "first_group g (r # rs) =
     (case rmatch g r of
        [] \<Rightarrow> first_group g rs
      | r2 # _ \<Rightarrow> Some (take (length r - length r2) r))"

definition match_here :: "rx \<times> rx \<Rightarrow> string \<Rightarrow> string option" where
  "match_here p s = first_group (snd p) (rmatch (fst p) s)"

fun search :: "rx \<times> rx \<Rightarrow> string \<Rightarrow> string option" where
  "search p [] = match_here p []"
| "search p (c # s) =
     (case match_here p (c # s) of Some g \<Rightarrow> Some g | None \<Rightarrow> search p s)"

text \<open>
  \<open>re.sub(r, '', s)\<close> for a pattern that cannot match the empty string: scan from the
  left, drop each match, keep every other character. The counter is the number of
  characters of the current match still to drop.
\<close>

fun delete_matches :: "rx \<Rightarrow> nat \<Rightarrow> string \<Rightarrow> string" where
  "delete_matches r k [] = []"
| "delete_matches r (Suc k) (c # s) = delete_matches r k s"
| "delete_matches r 0 (c # s) =
     (case rmatch r (c # s) of
        [] \<Rightarrow> c # delete_matches r 0 s
      | rest # _ \<Rightarrow>
          (case length (c # s) - length rest of
             0 \<Rightarrow> c # delete_matches r 0 s
           | Suc n \<Rightarrow> delete_matches r n s))"

text \<open>\<open>re.sub('^' + r, '', s)\<close>: one match, at the start only.\<close>

definition delete_prefix :: "rx \<Rightarrow> string \<Rightarrow> string" where
  "delete_prefix r s = (case rmatch r s of [] \<Rightarrow> s | rest # _ \<Rightarrow> rest)"

section \<open>The classifier (ai_classifier.py)\<close>

text \<open>
  The e-mail handed to the classifier. \<open>EmailHandler._fetch_email\<close> and the API build
  every field as a string; a key may be missing, which is \<open>None\<close> here and is read
  with the default the source gives to \<open>.get\<close>.
\<close>

record email_data =
  email_id :: "string option"
  subject :: "string option"
  body :: "string option"
  sender :: "string option"
  customer_email :: "string option"
  internal_id :: "string option"

definition get_str :: "string option \<Rightarrow> string \<Rightarrow> string" where
  "get_str v dflt = (case v of None \<Rightarrow> dflt | Some s \<Rightarrow> s)"

subsection \<open>Entity extraction\<close>

definition order_patterns :: "(rx \<times> rx) list" where
  "order_patterns =
    [ (Seq [lit_ci ''order'', Star Space, Opt (One (Only (CHR ''#''))), Star Space],
       Plus Word),
      (Seq [lit_ci ''order'', Star Space, lit_ci ''number'', Star Space,
            Opt (One (Only (CHR '':''))), Star Space],
       Plus Word),
      (One (Only (CHR ''#'')),
       Cat (Rep 6 Word) (Star Word)),
      (Seq [lit_ci ''ref'', Star Space, Opt (One (Only (CHR '':''))), Star Space],
       Plus Word) ]"

definition phone_pattern :: "rx \<times> rx" where
  "phone_pattern =
    (Eps,
     Seq [Opt (One (Only (CHR ''+''))), Opt (One (Only (CHR ''1''))), Opt (One Sep),
          Opt (One (Only (CHR ''(''))), Rep 3 Digit, Opt (One (Only (CHR '')''))),
          Opt (One Sep), Rep 3 Digit, Opt (One Sep), Rep 4 Digit])"

definition amount_pattern :: "rx \<times> rx" where
  "amount_pattern =
    (One (Only (CHR ''$'')),
     Cat (Plus Digit) (Opt (Cat (One (Only (CHR ''.''))) (Rep 2 Digit))))"

text \<open>
  The loop over \<open>order_patterns\<close>: the first pattern that matches while no true
  \<open>order_number\<close> is present sets it and ends the loop.
\<close>

fun probe_order :: "(rx \<times> rx) list \<Rightarrow> string \<Rightarrow> (string \<times> pyval) list \<Rightarrow> (string \<times> pyval) list" where
  "probe_order [] text entities = entities"
| "probe_order (p # ps) text entities =
     (case search p text of
        None \<Rightarrow> probe_order ps text entities
      | Some g \<Rightarrow>
          if \<not> truthy_get (map_of entities ''order_number'')
          then AList.update ''order_number'' (PStr g) entities
          else probe_order ps text entities)"

definition entity_text :: "email_data \<Rightarrow> string" where
  "entity_text e = get_str (subject e) [] @ '' '' @ get_str (body e) []"

definition extract_additional_entities ::
  "email_data \<Rightarrow> (string \<times> pyval) list \<Rightarrow> (string \<times> pyval) list" where
  "extract_additional_entities e existing_entities =
    (let text = entity_text e;
         entities = probe_order order_patterns text existing_entities;
         entities = (case search phone_pattern text of
                       None \<Rightarrow> entities
                     | Some g \<Rightarrow>
                         if \<not> truthy_get (map_of entities ''phone_number'')
                         then AList.update ''phone_number'' (PStr g) entities
                         else entities);
         entities = (case search amount_pattern text of
                       None \<Rightarrow> entities
                     | Some g \<Rightarrow>
                         if \<not> truthy_get (map_of entities ''amount'')
                         then AList.update ''amount'' (PStr (''$'' @ g)) entities
                         else entities)
     in entities)"

text \<open>Whether any of the six searches of the extraction finds something.\<close>

definition any_entity_match :: "email_data \<Rightarrow> bool" where
  "any_entity_match e =
     list_ex (\<lambda>p. search p (entity_text e) \<noteq> None)
       (order_patterns @ [phone_pattern, amount_pattern])"

subsection \<open>The sender's name\<close>

definition extract_name_from_sender :: "string \<Rightarrow> string" where
  "extract_name_from_sender sndr =
    (let name = strip (delete_matches
                  (Seq [One (Only (CHR ''<'')), Plus (Except (CHR ''>'')), One (Only (CHR ''>''))])
                  0 sndr);
         name = strip (delete_matches
                  (Seq [One (Only (CHR 0x22)), Star (Except (CHR 0x22)), One (Only (CHR 0x22))])
                  0 name);
         name = delete_prefix
                  (Cat (Alt (lit_ci ''Mr.'') (Alt (lit_ci ''Ms.'') (Alt (lit_ci ''Mrs.'') (lit_ci ''Dr.''))))
                       (Star Space))
                  name
     in if name \<noteq> [] \<and> length name > 2 then name else ''Unknown'')"

subsection \<open>The keyword fallback\<close>

definition fallback_category :: "string \<Rightarrow> string" where
  "fallback_category text =
    (if any_in [''bill'', ''charge'', ''payment'', ''invoice'', ''subscription''] text
       then ''Billing Issue''
     else if any_in [''broken'', ''defective'', ''not working'', ''malfunction''] text
       then ''Product Defect''
     else if any_in [''refund'', ''return'', ''cancel'', ''money back''] text
       then ''Refund Request''
     else if any_in [''technical'', ''bug'', ''error'', ''login'', ''password''] text
       then ''Technical Support''
     else if any_in [''delivery'', ''shipping'', ''late'', ''missing''] text
       then ''Delivery Problem''
     else if any_in [''account'', ''profile'', ''settings''] text
       then ''Account Issue''
     else ''General Inquiry'')"

definition fallback_priority :: "string \<Rightarrow> string" where
  "fallback_priority text =
    (if any_in [''urgent'', ''immediately'', ''asap'', ''critical''] text then ''Urgent''
     else if any_in [''broken'', ''not working'', ''frustrated'', ''angry''] text then ''High''
     else if any_in [''question'', ''info'', ''help''] text then ''Low''
     else ''Medium'')"

definition fallback_sentiment :: "string \<Rightarrow> string" where
  "fallback_sentiment text =
    (if any_in [''angry'', ''furious'', ''unacceptable'', ''terrible''] text then ''Angry''
     else if any_in [''frustrated'', ''annoying'', ''disappointed''] text then ''Frustrated''
     else if any_in [''thank'', ''good'', ''satisfied'', ''happy''] text then ''Satisfied''
     else ''Neutral'')"

definition get_fallback_classification :: "email_data \<Rightarrow> pydict" where
  "get_fallback_classification e =
    (let text = lower (entity_text e);
         category = fallback_category text;
         priority = fallback_priority text;
         sentiment = fallback_sentiment text
     in [ ''customer_name'' \<mapsto> PStr (extract_name_from_sender (get_str (sender e) [])),
          ''customer_email'' \<mapsto> PStr (get_str (customer_email e) []),
          ''category'' \<mapsto> PStr category,
          ''priority'' \<mapsto> PStr priority,
          ''sentiment'' \<mapsto> PStr sentiment,
          ''key_entities'' \<mapsto> PDict (extract_additional_entities e []),
          ''summary'' \<mapsto> PStr (''Customer complaint regarding '' @ lower category),
          ''suggested_action'' \<mapsto> PStr ''Review complaint and respond appropriately'' ])"

definition get_default_classification :: pydict where
  "get_default_classification =
     [ ''customer_name'' \<mapsto> PStr ''Unknown'',
       ''customer_email'' \<mapsto> PStr [],
       ''category'' \<mapsto> PStr ''General Inquiry'',
       ''priority'' \<mapsto> PStr ''Medium'',
       ''sentiment'' \<mapsto> PStr ''Neutral'',
       ''key_entities'' \<mapsto> PDict [],
       ''summary'' \<mapsto> PStr ''Unable to analyze complaint content'',
       ''suggested_action'' \<mapsto> PStr ''Manual review required'' ]"

subsection \<open>The reply of the classification service\<close>

text \<open>
  The service and the JSON library are outside the repository, so what they deliver is
  an input of the model: the call (or reading \<open>response.content[0].text\<close>, or any error of
  parsing other than \<open>JSONDecodeError\<close>) raises; or the reply text holds no
  \<open>{...}\<close>; or \<open>json.loads\<close> rejects it; or \<open>json.loads\<close> returns a dictionary.
\<close>

datatype response_text = NoJson | BadJson | Json pydict

datatype claude_reply = CallFails | Reply response_text

definition fill_required :: "string \<Rightarrow> pydict \<Rightarrow> pydict" where
  "fill_required field result =
     (if result field = None then result(field \<mapsto> PStr ''Unknown'') else result)"

fun is_dict :: "pyval \<Rightarrow> bool" where
  "is_dict (PDict kvs) = True"
| "is_dict v = False"

fun parse_claude_response :: "response_text \<Rightarrow> pydict" where
  "parse_claude_response (Json result) =
     (let result = fill_required ''sentiment''
                     (fill_required ''priority'' (fill_required ''category'' result))
      in case result ''key_entities'' of
           None \<Rightarrow> result(''key_entities'' \<mapsto> PDict [])
         | Some v \<Rightarrow> if is_dict v then result else result(''key_entities'' \<mapsto> PDict []))"
| "parse_claude_response NoJson = get_default_classification"
| "parse_claude_response BadJson = get_default_classification"

subsection \<open>Validation\<close>

definition valid_categories :: "string list" where
  "valid_categories =
     [''Billing Issue'', ''Product Defect'', ''Refund Request'',
      ''Technical Support'', ''Delivery Problem'', ''Account Issue'', ''General Inquiry'']"

definition valid_priorities :: "string list" where
  "valid_priorities = [''Urgent'', ''High'', ''Medium'', ''Low'']"

definition valid_sentiments :: "string list" where
  "valid_sentiments = [''Angry'', ''Frustrated'', ''Neutral'', ''Satisfied'']"

text \<open>\<open>d.get(k) in names\<close>: only a string equals a string.\<close>

definition get_in :: "pyval option \<Rightarrow> string list \<Rightarrow> bool" where
  "get_in v names = (case v of Some (PStr s) \<Rightarrow> s \<in> set names | _ \<Rightarrow> False)"

definition clamp_field :: "string \<Rightarrow> string list \<Rightarrow> string \<Rightarrow> pydict \<Rightarrow> pydict" where
  "clamp_field field names dflt c =
     (if \<not> get_in (c field) names then c(field \<mapsto> PStr dflt) else c)"

text \<open>
  \<open>_extract_additional_entities\<close> on whatever \<open>key_entities\<close> holds: a dictionary is
  copied and extended; a list has \<open>copy\<close> but no \<open>get\<close>, which is reached only when a
  pattern matches; anything else has no \<open>copy\<close>.
\<close>

definition extract_entities_of :: "email_data \<Rightarrow> pyval option \<Rightarrow> exn + pyval" where
  "extract_entities_of e v =
    (case v of
       None \<Rightarrow> Inr (PDict (extract_additional_entities e []))
     | Some (PDict kvs) \<Rightarrow> Inr (PDict (extract_additional_entities e kvs))
     | Some (PList xs) \<Rightarrow> if any_entity_match e then Inl AttributeError else Inr (PList xs)
     | Some _ \<Rightarrow> Inl AttributeError)"

definition enhance_classification :: "pydict \<Rightarrow> email_data \<Rightarrow> exn + pydict" where
  "enhance_classification classification e =
    (let c = classification(''customer_email'' \<mapsto> PStr (get_str (customer_email e) []));
         c = (if c ''customer_name'' = Some (PStr ''Unknown'')
              then c(''customer_name'' \<mapsto> PStr (extract_name_from_sender (get_str (sender e) [])))
              else c);
         c = clamp_field ''category'' valid_categories ''General Inquiry'' c;
         c = clamp_field ''priority'' valid_priorities ''Medium'' c;
         c = clamp_field ''sentiment'' valid_sentiments ''Neutral'' c
     in case extract_entities_of e (c ''key_entities'') of
          Inl x \<Rightarrow> Inl x
        | Inr ents \<Rightarrow> Inr (c(''key_entities'' \<mapsto> ents)))"

subsection \<open>classify_complaint\<close>

text \<open>The body of the \<open>try\<close> block, then the function with its catch-all handler.\<close>

definition classify_try :: "claude_reply \<Rightarrow> email_data \<Rightarrow> exn + pydict" where
  "classify_try reply e =
    (case reply of
       CallFails \<Rightarrow> Inl ServiceError
     | Reply text \<Rightarrow> enhance_classification (parse_claude_response text) e)"

definition classify_complaint :: "claude_reply \<Rightarrow> email_data \<Rightarrow> exn + pydict" where
  "classify_complaint reply e =
    (case classify_try reply e of
       Inr classification_result \<Rightarrow> Inr classification_result
     | Inl x \<Rightarrow> Inr (get_fallback_classification e))"

section \<open>Configuration (config.py)\<close>

record config =
  billing_team_email :: string
  tech_team_email :: string
  refunds_team_email :: string
  delivery_team_email :: string
  account_team_email :: string
  general_team_email :: string
  manager_email :: string
  slack_webhook_url :: "string option"

definition team_mapping :: "config \<Rightarrow> string \<rightharpoonup> string" where
  "team_mapping cfg =
     [ ''Billing Issue'' \<mapsto> billing_team_email cfg,
       ''Product Defect'' \<mapsto> tech_team_email cfg,
       ''Refund Request'' \<mapsto> refunds_team_email cfg,
       ''Technical Support'' \<mapsto> tech_team_email cfg,
       ''Delivery Problem'' \<mapsto> delivery_team_email cfg,
       ''Account Issue'' \<mapsto> account_team_email cfg,
       ''General Inquiry'' \<mapsto> general_team_email cfg ]"

text \<open>
  \<open>table.get(key, dflt)\<close> on a table with string keys, for a key that is any Python
  value: an unhashable key raises TypeError, a key that is no string is never found.
\<close>

definition dict_get :: "(string \<rightharpoonup> 'a) \<Rightarrow> pyval \<Rightarrow> 'a \<Rightarrow> exn + 'a" where
  "dict_get table k dflt =
     (if \<not> hashable k then Inl TypeError
      else case k of
             PStr s \<Rightarrow> (case table s of None \<Rightarrow> Inr dflt | Some v \<Rightarrow> Inr v)
           | _ \<Rightarrow> Inr dflt)"

definition get_team_email :: "config \<Rightarrow> pyval \<Rightarrow> exn + string" where
  "get_team_email cfg category = dict_get (team_mapping cfg) category (general_team_email cfg)"

text \<open>\<open>d.get(k, dflt)\<close> on a dictionary of the pipeline.\<close>

definition get_or :: "pyval option \<Rightarrow> pyval \<Rightarrow> pyval" where
  "get_or v dflt = (case v of None \<Rightarrow> dflt | Some x \<Rightarrow> x)"

section \<open>Routing (router.py)\<close>

definition escalation_rules :: "string \<rightharpoonup> string list" where
  "escalation_rules =
     [ ''Urgent'' \<mapsto> [''manager'', ''team''],
       ''High'' \<mapsto> [''manager''],
       ''Medium'' \<mapsto> [''team''],
       ''Low'' \<mapsto> [''team''] ]"

definition determine_assigned_team :: "pyval \<Rightarrow> exn + string" where
  "determine_assigned_team category =
     dict_get
       [ ''Billing Issue'' \<mapsto> ''Billing Team'',
         ''Product Defect'' \<mapsto> ''Technical Team'',
         ''Refund Request'' \<mapsto> ''Refunds Team'',
         ''Technical Support'' \<mapsto> ''Technical Team'',
         ''Delivery Problem'' \<mapsto> ''Delivery Team'',
         ''Account Issue'' \<mapsto> ''Account Team'',
         ''General Inquiry'' \<mapsto> ''General Support Team'' ]
       category ''General Support Team''"

definition determine_escalation_actions :: "pyval \<Rightarrow> exn + string list" where
  "determine_escalation_actions prio = dict_get escalation_rules prio [''team'']"

record routing_result =
  complaint_id :: pyval
  assigned_team :: string
  team_email :: string
  priority :: pyval
  escalation_actions :: "string list"
  routing_timestamp :: string
  status :: string

definition get_fallback_routing :: "config \<Rightarrow> string \<Rightarrow> pydict \<Rightarrow> routing_result" where
  "get_fallback_routing cfg clock complaint_data =
     \<lparr> complaint_id = get_or (complaint_data ''id'') PNone,
       assigned_team = ''General Support Team'',
       team_email = general_team_email cfg,
       priority = PStr ''Medium'',
       escalation_actions = [''team''],
       routing_timestamp = clock,
       status = ''routed_fallback'' \<rparr>"

text \<open>
  \<open>route_complaint\<close> writes \<open>assigned_team\<close> into the dictionary it is given, so the
  model returns the dictionary as the call leaves it, next to the routing result. The
  clock reading is a parameter. The handler of the \<open>try\<close> block turns any exception into
  the fallback routing; what was written before the exception stays written.
\<close>

definition route_complaint :: "config \<Rightarrow> string \<Rightarrow> pydict \<Rightarrow> routing_result \<times> pydict" where
  "route_complaint cfg clock complaint_data =
    (let category = get_or (complaint_data ''category'') (PStr ''General Inquiry'');
         prio = get_or (complaint_data ''priority'') (PStr ''Medium'');
         cid = get_or (complaint_data ''id'') PNone
     in case determine_assigned_team category of
          Inl x \<Rightarrow> (get_fallback_routing cfg clock complaint_data, complaint_data)
        | Inr team \<Rightarrow>
            (let complaint_data = complaint_data(''assigned_team'' \<mapsto> PStr team)
             in case determine_escalation_actions prio of
                  Inl x \<Rightarrow> (get_fallback_routing cfg clock complaint_data, complaint_data)
                | Inr actions \<Rightarrow>
                    (case get_team_email cfg category of
                       Inl x \<Rightarrow> (get_fallback_routing cfg clock complaint_data, complaint_data)
                     | Inr address \<Rightarrow>
                         (\<lparr> complaint_id = cid,
                            assigned_team = team,
                            team_email = address,
                            priority = prio,
                            escalation_actions = actions,
                            routing_timestamp = clock,
                            status = ''routed'' \<rparr>,
                          complaint_data))))"

text \<open>The routing result as the dictionary that \<open>complaint_data.update\<close> merges in.\<close>

definition routing_dict :: "routing_result \<Rightarrow> pydict" where
  "routing_dict r =
     [ ''complaint_id'' \<mapsto> complaint_id r,
       ''assigned_team'' \<mapsto> PStr (assigned_team r),
       ''team_email'' \<mapsto> PStr (team_email r),
       ''priority'' \<mapsto> priority r,
       ''escalation_actions'' \<mapsto> PList (map PStr (escalation_actions r)),
       ''routing_timestamp'' \<mapsto> PStr (routing_timestamp r),
       ''status'' \<mapsto> PStr (status r) ]"

section \<open>The outside world\<close>

text \<open>
  Messages are what the code hands to SMTP and to the Slack webhook. A text is a list
  of lines. \<open>py_repr\<close> is Python's \<open>str()\<close> on values that are not strings (numbers,
  \<open>None\<close>, lists, dictionaries), a library function and so a parameter; a string
  formats as itself.
\<close>

record mail =
  mail_to :: pyval
  mail_subject :: string
  mail_text :: "string list"

record slack_message =
  slack_text :: string
  slack_color :: string
  slack_fields :: "(string \<times> pyval \<times> bool) list"
  slack_footer :: string

record env =
  claude :: claude_reply
  smtp_ok :: "mail \<Rightarrow> bool"
  slack_ok :: "slack_message \<Rightarrow> bool"
  imap_ok :: bool
  now :: string
  py_repr :: "pyval \<Rightarrow> string"

definition fmt :: "env \<Rightarrow> pyval \<Rightarrow> string" where
  "fmt ev v = (case v of PStr s \<Rightarrow> s | _ \<Rightarrow> py_repr ev v)"

datatype event =
    DbLookup string
  | ClassifierCall
  | DbInsert
  | SmtpSend mail
  | SlackPost slack_message
  | ImapMarkRead string

record database =
  rows :: "pydict list"
  last_rowid :: nat

record world =
  db :: database
  trace :: "event list"

definition log_event :: "event \<Rightarrow> world \<Rightarrow> world" where
  "log_event ev w = w\<lparr>trace := trace w @ [ev]\<rparr>"

text \<open>\<open>v[:n]\<close> and \<open>len(v)\<close> on a Python value.\<close>

fun py_slice :: "nat \<Rightarrow> pyval \<Rightarrow> exn + pyval" where
  "py_slice n (PStr s) = Inr (PStr (take n s))"
| "py_slice n (PList xs) = Inr (PList (take n xs))"
| "py_slice n v = Inl TypeError"

fun py_len :: "pyval \<Rightarrow> exn + nat" where
  "py_len (PStr s) = Inr (length s)"
| "py_len (PList xs) = Inr (length xs)"
| "py_len (PDict kvs) = Inr (length kvs)"
| "py_len v = Inl TypeError"

section \<open>Sending e-mail (email_handler.py)\<close>

definition response_times :: "string \<rightharpoonup> string" where
  "response_times =
     [ ''Urgent'' \<mapsto> ''within 2 hours'',
       ''High'' \<mapsto> ''within 4 hours'',
       ''Medium'' \<mapsto> ''within 24 hours'',
       ''Low'' \<mapsto> ''within 48 hours'' ]"

definition create_acknowledgment_text :: "env \<Rightarrow> pydict \<Rightarrow> exn + string list" where
  "create_acknowledgment_text ev complaint_data =
    (let customer_name = get_or (complaint_data ''customer_name'') (PStr ''Valued Customer'');
         category = get_or (complaint_data ''category'') (PStr ''your inquiry'');
         prio = get_or (complaint_data ''priority'') (PStr ''Medium'');
         team = get_or (complaint_data ''assigned_team'') (PStr ''our support team'')
     in case dict_get response_times prio ''within 24 hours'' of
          Inl x \<Rightarrow> Inl x
        | Inr response_time \<Rightarrow>
            (case category of
               PStr cat \<Rightarrow>
                 Inr [ ''Dear '' @ fmt ev customer_name @ '','',
                       [],
                       ''Thank you for contacting us regarding '' @ lower cat
                         @ ''. We have received your message and want to assure you that we take all customer concerns seriously.'',
                       [],
                       ''Your complaint has been:'',
                       ''- Categorized as: '' @ cat,
                       ''- Priority Level: '' @ fmt ev prio,
                       ''- Assigned to: '' @ fmt ev team,
                       [],
                       ''We will respond to your inquiry '' @ response_time @ '' during business hours.'',
                       [],
                       ''Your complaint reference: #'' @ fmt ev (get_or (complaint_data ''id'') (PStr ''TBD'')),
                       [],
                       ''If you have any additional information or urgent concerns, please reply to this email or contact us directly.'',
                       [],
                       ''Thank you for your patience and for choosing our services.'',
                       [],
                       ''Best regards,'',
                       ''Customer Service Team'' ]
             | _ \<Rightarrow> Inl AttributeError))"

text \<open>
  Both senders catch every exception and answer \<open>False\<close>. A message that was built is
  handed to SMTP, which is logged; whether SMTP accepts it is the environment's.
\<close>

definition send_acknowledgment_email :: "env \<Rightarrow> pyval \<Rightarrow> pydict \<Rightarrow> world \<Rightarrow> bool \<times> world" where
  "send_acknowledgment_email ev address complaint_data w =
    (case create_acknowledgment_text ev complaint_data of
       Inl x \<Rightarrow> (False, w)
     | Inr text \<Rightarrow>
         (let msg = \<lparr> mail_to = address,
                      mail_subject = ''Re: '' @ fmt ev (get_or (complaint_data ''subject'') (PStr ''Your Complaint'')),
                      mail_text = text \<rparr>
          in (smtp_ok ev msg, log_event (SmtpSend msg) w)))"

definition create_team_notification_text :: "env \<Rightarrow> pydict \<Rightarrow> exn + string list" where
  "create_team_notification_text ev complaint_data =
    (case py_slice 500 (get_or (complaint_data ''body'') (PStr ''No body content'')) of
       Inl x \<Rightarrow> Inl x
     | Inr excerpt \<Rightarrow>
         (case py_len (get_or (complaint_data ''body'') (PStr [])) of
            Inl x \<Rightarrow> Inl x
          | Inr n \<Rightarrow>
              Inr [ ''NEW CUSTOMER COMPLAINT ASSIGNED'',
                    [],
                    ''Complaint ID: #'' @ fmt ev (get_or (complaint_data ''id'') (PStr ''TBD'')),
                    ''Priority: '' @ fmt ev (get_or (complaint_data ''priority'') (PStr ''Medium'')),
                    ''Category: '' @ fmt ev (get_or (complaint_data ''category'') (PStr ''Unknown'')),
                    ''Sentiment: '' @ fmt ev (get_or (complaint_data ''sentiment'') (PStr ''Neutral'')),
                    [],
                    ''Customer Details:'',
                    ''- Name: '' @ fmt ev (get_or (complaint_data ''customer_name'') (PStr ''Unknown'')),
                    ''- Email: '' @ fmt ev (get_or (complaint_data ''customer_email'') (PStr ''Unknown'')),
                    [],
                    ''Subject: '' @ fmt ev (get_or (complaint_data ''subject'') (PStr ''No subject'')),
                    [],
                    ''Complaint Summary:'',
                    fmt ev (get_or (complaint_data ''summary'') (PStr ''No summary available'')),
                    [],
                    ''Suggested Action:'',
                    fmt ev (get_or (complaint_data ''suggested_action'') (PStr ''Review and respond appropriately'')),
                    [],
                    ''Key Entities:'',
                    fmt ev (get_or (complaint_data ''key_entities'') (PStr ''None identified'')),
                    [],
                    ''Full Complaint Body:'',
                    fmt ev excerpt @ (if n > 500 then ''...'' else []),
                    [],
                    ''Please respond promptly based on the priority level.'' ]))"

definition email_send_team_notification :: "env \<Rightarrow> string \<Rightarrow> pydict \<Rightarrow> world \<Rightarrow> bool \<times> world" where
  "email_send_team_notification ev address complaint_data w =
    (case create_team_notification_text ev complaint_data of
       Inl x \<Rightarrow> (False, w)
     | Inr text \<Rightarrow>
         (let msg = \<lparr> mail_to = PStr address,
                      mail_subject = ''New '' @ fmt ev (get_or (complaint_data ''priority'') (PStr ''Medium''))
                                     @ '' Priority Complaint - #''
                                     @ fmt ev (get_or (complaint_data ''id'') (PStr ''TBD'')),
                      mail_text = text \<rparr>
          in (smtp_ok ev msg, log_event (SmtpSend msg) w)))"

definition mark_as_read :: "env \<Rightarrow> string \<Rightarrow> world \<Rightarrow> bool \<times> world" where
  "mark_as_read ev mid w = (imap_ok ev, log_event (ImapMarkRead mid) w)"

section \<open>Notifications (router.py)\<close>

text \<open>The emoji of the source are written by their names.\<close>

definition priority_emoji :: "string \<rightharpoonup> string" where
  "priority_emoji =
     [ ''Urgent'' \<mapsto> '':rotating_light:'',
       ''High'' \<mapsto> '':warning:'',
       ''Medium'' \<mapsto> '':clipboard:'',
       ''Low'' \<mapsto> '':information_source:'' ]"

definition get_priority_color :: "pyval \<Rightarrow> exn + string" where
  "get_priority_color prio =
     dict_get
       [ ''Urgent'' \<mapsto> ''danger'',
         ''High'' \<mapsto> ''warning'',
         ''Medium'' \<mapsto> ''good'',
         ''Low'' \<mapsto> ''#36a64f'' ]
       prio ''good''"

text \<open>\<open>self.slack_webhook_url\<close> read as a condition: set and not empty.\<close>

definition webhook_configured :: "config \<Rightarrow> bool" where
  "webhook_configured cfg = (case slack_webhook_url cfg of None \<Rightarrow> False | Some u \<Rightarrow> u \<noteq> [])"

definition build_slack_message :: "env \<Rightarrow> routing_result \<Rightarrow> pydict \<Rightarrow> exn + slack_message" where
  "build_slack_message ev routing complaint_data =
    (case dict_get priority_emoji (priority routing) '':clipboard:'' of
       Inl x \<Rightarrow> Inl x
     | Inr emoji \<Rightarrow>
         (case get_priority_color (priority routing) of
            Inl x \<Rightarrow> Inl x
          | Inr color \<Rightarrow>
              (case py_slice 200 (get_or (complaint_data ''summary'') (PStr ''No summary available'')) of
                 Inl x \<Rightarrow> Inl x
               | Inr summary \<Rightarrow>
                   Inr \<lparr> slack_text = emoji @ '' New '' @ fmt ev (priority routing) @ '' Priority Complaint'',
                         slack_color = color,
                         slack_fields =
                           [ (''Complaint ID'',
                              PStr (''#'' @ fmt ev (get_or (complaint_data ''id'') (PStr ''TBD''))), True),
                             (''Category'', get_or (complaint_data ''category'') (PStr ''Unknown''), True),
                             (''Priority'', priority routing, True),
                             (''Assigned Team'', PStr (assigned_team routing), True),
                             (''Customer'',
                              PStr (fmt ev (get_or (complaint_data ''customer_name'') (PStr ''Unknown''))
                                    @ '' ('' @ fmt ev (get_or (complaint_data ''customer_email'') (PStr ''Unknown''))
                                    @ '')''), False),
                             (''Summary'', summary, False) ],
                         slack_footer = ''Complaint Triage Agent'' \<rparr>)))"

text \<open>
  \<open>_send_slack_notification\<close>: nothing is posted without a webhook or when building the
  message raises; a post is logged, and its success is the environment's (status 200).
\<close>

definition send_slack_notification ::
  "config \<Rightarrow> env \<Rightarrow> routing_result \<Rightarrow> pydict \<Rightarrow> world \<Rightarrow> bool \<times> world" where
  "send_slack_notification cfg ev routing complaint_data w =
    (if \<not> webhook_configured cfg then (False, w)
     else case build_slack_message ev routing complaint_data of
            Inl x \<Rightarrow> (False, w)
          | Inr msg \<Rightarrow> (slack_ok ev msg, log_event (SlackPost msg) w))"

definition create_manager_notification :: "env \<Rightarrow> routing_result \<Rightarrow> pydict \<Rightarrow> pydict" where
  "create_manager_notification ev routing complaint_data =
     complaint_data
       ( ''subject'' \<mapsto> PStr (''ESCALATION: '' @ fmt ev (priority routing) @ '' Priority Complaint - #''
                               @ fmt ev (get_or (complaint_data ''id'') (PStr ''TBD''))),
         ''escalation_reason'' \<mapsto> PStr (''Complaint escalated due to '' @ fmt ev (priority routing)
                               @ '' priority level''),
         ''assigned_team'' \<mapsto> PStr ''Management'' )"

text \<open>
  \<open>_send_escalation_notifications\<close>: the manager notification is created, and then the
  team notification of the e-mail handler is sent to the manager with \<open>complaint_data\<close>.
\<close>

definition send_escalation_notifications ::
  "config \<Rightarrow> env \<Rightarrow> routing_result \<Rightarrow> pydict \<Rightarrow> world \<Rightarrow> bool \<times> world" where
  "send_escalation_notifications cfg ev routing complaint_data w =
    (if ''manager'' \<in> set (escalation_actions routing)
     then (let manager_notification = create_manager_notification ev routing complaint_data
           in email_send_team_notification ev (manager_email cfg) complaint_data w)
     else (True, w))"

text \<open>
  The three local flags of \<open>send_team_notification\<close>, in the order the source computes
  them, and the function itself, which returns the first of them.
\<close>

definition team_notification_flags ::
  "config \<Rightarrow> env \<Rightarrow> routing_result \<Rightarrow> pydict \<Rightarrow> world \<Rightarrow> (bool \<times> bool \<times> bool) \<times> world" where
  "team_notification_flags cfg ev routing complaint_data w =
    (let (email_sent, w) = email_send_team_notification ev (team_email routing) complaint_data w;
         (slack_sent, w) =
            (if webhook_configured cfg \<and> get_in (Some (priority routing)) [''Urgent'', ''High'']
             then send_slack_notification cfg ev routing complaint_data w
             else (False, w));
         (escalation_sent, w) = send_escalation_notifications cfg ev routing complaint_data w
     in ((email_sent, slack_sent, escalation_sent), w))"

definition send_team_notification ::
  "config \<Rightarrow> env \<Rightarrow> routing_result \<Rightarrow> pydict \<Rightarrow> world \<Rightarrow> bool \<times> world" where
  "send_team_notification cfg ev routing complaint_data w =
    (let ((email_sent, slack_sent, escalation_sent), w) =
           team_notification_flags cfg ev routing complaint_data w
     in (email_sent, w))"

section \<open>Persistence (database.py)\<close>

text \<open>
  The table as the list of its rows. SQLite itself is outside the repository; what the
  code relies on is modelled: a parameter of an unsupported type (a list or a
  dictionary) is an error of the library, a \<open>NULL\<close> in a \<open>NOT NULL\<close> column or a second
  row with the same \<open>email_id\<close> is an \<open>IntegrityError\<close>, which \<open>insert_complaint\<close>
  turns into \<open>ValueError\<close>; every other exception is re-raised as it is.
\<close>

definition get_complaint_by_email_id :: "database \<Rightarrow> string \<Rightarrow> pydict option" where
  "get_complaint_by_email_id d key = List.find (\<lambda>r. r ''email_id'' = Some (PStr key)) (rows d)"

definition insert_params :: "pydict \<Rightarrow> exn + (string \<times> pyval) list" where
  "insert_params complaint_data =
    (case List.find (\<lambda>k. complaint_data k = None)
            [''email_id'', ''customer_email'', ''subject'', ''body'', ''category'', ''priority'',
             ''assigned_team''] of
       Some k \<Rightarrow> Inl (KeyError k)
     | None \<Rightarrow>
         Inr [ (''email_id'', get_or (complaint_data ''email_id'') PNone),
               (''customer_email'', get_or (complaint_data ''customer_email'') PNone),
               (''customer_name'', get_or (complaint_data ''customer_name'') PNone),
               (''subject'', get_or (complaint_data ''subject'') PNone),
               (''body'', get_or (complaint_data ''body'') PNone),
               (''category'', get_or (complaint_data ''category'') PNone),
               (''priority'', get_or (complaint_data ''priority'') PNone),
               (''sentiment'', get_or (complaint_data ''sentiment'') PNone),
               (''assigned_team'', get_or (complaint_data ''assigned_team'') PNone),
               (''key_entities'', get_or (complaint_data ''key_entities'') (PStr [])),
               (''summary'', get_or (complaint_data ''summary'') (PStr [])),
               (''suggested_action'', get_or (complaint_data ''suggested_action'') (PStr [])) ])"

fun bindable :: "pyval \<Rightarrow> bool" where
  "bindable (PList xs) = False"
| "bindable (PDict kvs) = False"
| "bindable v = True"

definition not_null_columns :: "string list" where
  "not_null_columns =
     [''email_id'', ''customer_email'', ''subject'', ''body'', ''category'', ''priority'',
      ''assigned_team'']"

definition insert_complaint :: "string \<Rightarrow> pydict \<Rightarrow> database \<Rightarrow> exn + (nat \<times> database)" where
  "insert_complaint clock complaint_data d =
    (case insert_params complaint_data of
       Inl x \<Rightarrow> Inl x
     | Inr params \<Rightarrow>
         if list_ex (\<lambda>p. \<not> bindable (snd p)) params then Inl DatabaseError
         else if list_ex (\<lambda>p. fst p \<in> set not_null_columns \<and> snd p = PNone) params
           then Inl ValueError
         else if list_ex (\<lambda>r. r ''email_id'' = map_of params ''email_id'') (rows d)
           then Inl ValueError
         else
           (let new_id = last_rowid d + 1;
                row = (map_of params)
                        ( ''id'' \<mapsto> PNum (of_nat new_id),
                          ''status'' \<mapsto> PStr ''New'',
                          ''created_at'' \<mapsto> PStr clock,
                          ''updated_at'' \<mapsto> PStr clock )
            in Inr (new_id, \<lparr> rows = rows d @ [row], last_rowid = new_id \<rparr>)))"

section \<open>Processing one complaint (main.py)\<close>

record processing_result =
  classified :: nat
  routed :: nat
  notifications_sent :: nat

text \<open>
  \<open>process_single_complaint\<close> re-raises whatever its \<open>try\<close> block raises. The world
  after the call is returned in both cases.
\<close>

definition process_single_complaint ::
  "config \<Rightarrow> env \<Rightarrow> email_data \<Rightarrow> world \<Rightarrow> (exn + processing_result) \<times> world" where
  "process_single_complaint cfg ev e w =
    (let key = get_str (email_id e) ''unknown'';
         w = log_event (DbLookup key) w
     in case get_complaint_by_email_id (db w) key of
          Some existing_complaint \<Rightarrow>
            (Inr \<lparr> classified = 0, routed = 0, notifications_sent = 0 \<rparr>, w)
        | None \<Rightarrow>
            (let w = log_event ClassifierCall w
             in case classify_complaint (claude ev) e of
                  Inl x \<Rightarrow> (Inl x, w)
                | Inr classification_result \<Rightarrow>
                    (let complaint_data =
                           [ ''email_id'' \<mapsto> PStr key,
                             ''customer_email'' \<mapsto> PStr (get_str (customer_email e) []),
                             ''subject'' \<mapsto> PStr (get_str (subject e) []),
                             ''body'' \<mapsto> PStr (get_str (body e) []) ] ++ classification_result;
                         w = log_event DbInsert w
                     in case insert_complaint (now ev) complaint_data (db w) of
                          Inl x \<Rightarrow> (Inl x, w)
                        | Inr (new_id, d) \<Rightarrow>
                            (let w = w\<lparr>db := d\<rparr>;
                                 complaint_data = complaint_data(''id'' \<mapsto> PNum (of_nat new_id));
                                 (routing, complaint_data) = route_complaint cfg (now ev) complaint_data;
                                 complaint_data = complaint_data ++ routing_dict routing;
                                 (ack, w) =
                                    (if truthy_get (complaint_data ''customer_email'')
                                     then send_acknowledgment_email ev
                                            (get_or (complaint_data ''customer_email'') PNone)
                                            complaint_data w
                                     else (False, w));
                                 (team, w) = send_team_notification cfg ev routing complaint_data w;
                                 w = (case internal_id e of
                                        None \<Rightarrow> w
                                      | Some i \<Rightarrow> if i \<noteq> [] then snd (mark_as_read ev i w) else w)
                             in (Inr \<lparr> classified = 1, routed = 1,
                                       notifications_sent =
                                         (if ack then 1 else 0) + (if team then 1 else 0) \<rparr>,
                                 w)))))"

section \<open>Reading the log\<close>

fun smtp_sends :: "event list \<Rightarrow> mail list" where
  "smtp_sends [] = []"
| "smtp_sends (SmtpSend m # es) = m # smtp_sends es"
| "smtp_sends (e # es) = smtp_sends es"


section \<open>Concrete inputs\<close>

text \<open>The billing example of the specification.\<close>

definition unusual_charge :: email_data where
  "unusual_charge =
     \<lparr> email_id = None,
       subject = Some ''Unusual charge'',
       body = Some ''Charged $150 for a service I never ordered. Unacceptable.'',
       sender = Some ''John Doe <john@x.com>'',
       customer_email = None,
       internal_id = None \<rparr>"

text \<open>The e-mail of \<open>test_entity_extraction\<close> in tests/test_classifier.py.\<close>

definition order_issue :: email_data where
  "order_issue =
     \<lparr> email_id = None,
       subject = Some ''Order #12345 issue'',
       body = Some ''My order #12345 for iPhone 15 was delivered damaged. Please call me at (555) 123-4567.'',
       sender = Some ''Customer <customer@example.com>'',
       customer_email = Some ''customer@example.com'',
       internal_id = None \<rparr>"

text \<open>The three validated fields hold values of their enumerations.\<close>

definition enumerated :: "pydict \<Rightarrow> bool" where
  "enumerated c =
     (get_in (c ''category'') valid_categories \<and>
      get_in (c ''priority'') valid_priorities \<and>
      get_in (c ''sentiment'') valid_sentiments)"



text \<open>The addresses that config.py takes when the environment sets none, with a webhook.\<close>

definition default_config :: config where
  "default_config =
     \<lparr> billing_team_email = ''billing@company.com'',
       tech_team_email = ''tech@company.com'',
       refunds_team_email = ''refunds@company.com'',
       delivery_team_email = ''delivery@company.com'',
       account_team_email = ''accounts@company.com'',
       general_team_email = ''support@company.com'',
       manager_email = ''manager@company.com'',
       slack_webhook_url = Some ''https://hooks.slack.com/services/T0/B0/X0'' \<rparr>"

text \<open>A complaint whose category and priority are not values of the enumerations.\<close>

definition unknown_values_complaint :: pydict where
  "unknown_values_complaint =
     [ ''id'' \<mapsto> PNum 1, ''category'' \<mapsto> PStr ''Spam'', ''priority'' \<mapsto> PStr ''Whenever'' ]"


text \<open>\<open>str()\<close> on the values other than strings that occur in the examples.\<close>

definition repr_examples :: "pyval \<Rightarrow> string" where
  "repr_examples v =
     (case v of
        PNone \<Rightarrow> ''None''
      | PBool b \<Rightarrow> (if b then ''True'' else ''False'')
      | PNum q \<Rightarrow> (if q = 1 then ''1'' else ''<number>'')
      | _ \<Rightarrow> ''<object>'')"

text \<open>The service is down; every channel delivers.\<close>

definition service_down :: env where
  "service_down =
     \<lparr> claude = CallFails,
       smtp_ok = (\<lambda>m. True),
       slack_ok = (\<lambda>m. True),
       imap_ok = True,
       now = ''2024-01-01T00:00:00'',
       py_repr = repr_examples \<rparr>"

text \<open>The same, but Slack answers with an error and the manager's mailbox rejects.\<close>

definition slack_and_manager_fail :: env where
  "slack_and_manager_fail =
     \<lparr> claude = CallFails,
       smtp_ok = (\<lambda>m. mail_to m \<noteq> PStr ''manager@company.com''),
       slack_ok = (\<lambda>m. False),
       imap_ok = True,
       now = ''2024-01-01T00:00:00'',
       py_repr = repr_examples \<rparr>"

definition empty_world :: world where
  "empty_world = \<lparr> db = \<lparr> rows = [], last_rowid = 0 \<rparr>, trace = [] \<rparr>"

text \<open>A stored High priority billing complaint and its routing.\<close>

definition high_complaint :: pydict where
  "high_complaint =
     [ ''id'' \<mapsto> PNum 1,
       ''email_id'' \<mapsto> PStr ''<m1@example.com>'',
       ''category'' \<mapsto> PStr ''Billing Issue'',
       ''priority'' \<mapsto> PStr ''High'',
       ''sentiment'' \<mapsto> PStr ''Frustrated'',
       ''customer_name'' \<mapsto> PStr ''Test Customer'',
       ''customer_email'' \<mapsto> PStr ''test@example.com'',
       ''subject'' \<mapsto> PStr ''Double charge'',
       ''body'' \<mapsto> PStr ''I was charged twice this month.'',
       ''summary'' \<mapsto> PStr ''Customer was charged twice'',
       ''suggested_action'' \<mapsto> PStr ''Check the invoices'',
       ''key_entities'' \<mapsto> PStr ''{}'' ]"

definition high_routing :: routing_result where
  "high_routing =
     \<lparr> complaint_id = PNum 1,
       assigned_team = ''Billing Team'',
       team_email = ''billing@company.com'',
       priority = PStr ''High'',
       escalation_actions = [''manager''],
       routing_timestamp = ''2024-01-01T00:00:00'',
       status = ''routed'' \<rparr>"


text \<open>A new e-mail, the one of \<open>test_fallback_classification\<close>, with a message id.\<close>

definition billing_question :: email_data where
  "billing_question =
     \<lparr> email_id = Some ''<m2@example.com>'',
       subject = Some ''Billing question'',
       body = Some ''I have a question about my bill.'',
       sender = Some ''test@example.com'',
       customer_email = Some ''test@example.com'',
       internal_id = Some ''7'' \<rparr>"

section \<open>Properties of the classifier\<close>

subsection \<open>Validation\<close>

lemma get_in_clamp:
  "dflt \<in> set names \<Longrightarrow> get_in (clamp_field field names dflt c field) names"
  by (auto simp: clamp_field_def get_in_def split: option.splits pyval.splits)

lemma clamp_field_other:
  "g \<noteq> field \<Longrightarrow> clamp_field field names dflt c g = c g"
  by (simp add: clamp_field_def)

lemma fallback_category_valid: "fallback_category text \<in> set valid_categories"
  by (simp add: fallback_category_def valid_categories_def)

lemma fallback_priority_valid: "fallback_priority text \<in> set valid_priorities"
  by (simp add: fallback_priority_def valid_priorities_def)

lemma fallback_sentiment_valid: "fallback_sentiment text \<in> set valid_sentiments"
  by (simp add: fallback_sentiment_def valid_sentiments_def)

lemma fallback_enumerated: "enumerated (get_fallback_classification e)"
  using fallback_category_valid fallback_priority_valid fallback_sentiment_valid
  by (simp add: enumerated_def get_fallback_classification_def Let_def get_in_def)

lemma enhance_enumerated:
  assumes "enhance_classification cl e = Inr c"
  shows "enumerated c"
proof -
  define c0 where "c0 = cl(''customer_email'' \<mapsto> PStr (get_str (customer_email e) []))"
  define c1 where "c1 = (if c0 ''customer_name'' = Some (PStr ''Unknown'')
              then c0(''customer_name'' \<mapsto> PStr (extract_name_from_sender (get_str (sender e) [])))
              else c0)"
  define c2 where "c2 = clamp_field ''category'' valid_categories ''General Inquiry'' c1"
  define c3 where "c3 = clamp_field ''priority'' valid_priorities ''Medium'' c2"
  define c4 where "c4 = clamp_field ''sentiment'' valid_sentiments ''Neutral'' c3"
  have "enhance_classification cl e =
          (case extract_entities_of e (c4 ''key_entities'') of
             Inl x \<Rightarrow> Inl x
           | Inr ents \<Rightarrow> Inr (c4(''key_entities'' \<mapsto> ents)))"
    unfolding enhance_classification_def Let_def c0_def c1_def c2_def c3_def c4_def ..
  with assms obtain ents where c: "c = c4(''key_entities'' \<mapsto> ents)"
    by (cases "extract_entities_of e (c4 ''key_entities'')") auto
  have cat2: "get_in (c2 ''category'') valid_categories"
    unfolding c2_def by (rule get_in_clamp) (simp add: valid_categories_def)
  have pri3: "get_in (c3 ''priority'') valid_priorities"
    unfolding c3_def by (rule get_in_clamp) (simp add: valid_priorities_def)
  have sen4: "get_in (c4 ''sentiment'') valid_sentiments"
    unfolding c4_def by (rule get_in_clamp) (simp add: valid_sentiments_def)
  have "c4 ''category'' = c2 ''category''"
    by (simp add: c4_def c3_def clamp_field_other)
  moreover have "c4 ''priority'' = c3 ''priority''"
    by (simp add: c4_def clamp_field_other)
  ultimately show ?thesis
    using cat2 pri3 sen4 by (simp add: enumerated_def c)
qed

lemma classify_complaint_enumerated:
  "\<exists>c. classify_complaint reply e = Inr c \<and> enumerated c"
proof (cases "classify_try reply e")
  case (Inl x)
  then show ?thesis by (simp add: classify_complaint_def fallback_enumerated)
next
  case (Inr c)
  then have "enumerated c"
    by (auto simp: classify_try_def split: claude_reply.splits intro: enhance_enumerated)
  with Inr show ?thesis by (simp add: classify_complaint_def)
qed

text \<open>
  C1. Whatever the e-mail and whatever the classification service does (the call fails,
  the reply holds no JSON, the JSON is malformed, or the JSON holds any values at all),
  \<open>classify_complaint\<close> returns a classification whose category is one of the seven
  categories, whose priority is one of Urgent, High, Medium, Low and whose sentiment is
  one of Angry, Frustrated, Neutral, Satisfied.
\<close>

theorem classify_complaint_fields_enumerated:
  "\<exists>c cat pri sen.
     classify_complaint reply e = Inr c \<and>
     c ''category'' = Some (PStr cat) \<and>
     cat \<in> {''Billing Issue'', ''Product Defect'', ''Refund Request'', ''Technical Support'',
            ''Delivery Problem'', ''Account Issue'', ''General Inquiry''} \<and>
     c ''priority'' = Some (PStr pri) \<and>
     pri \<in> {''Urgent'', ''High'', ''Medium'', ''Low''} \<and>
     c ''sentiment'' = Some (PStr sen) \<and>
     sen \<in> {''Angry'', ''Frustrated'', ''Neutral'', ''Satisfied''}"
proof -
  obtain c where c: "classify_complaint reply e = Inr c" and en: "enumerated c"
    using classify_complaint_enumerated by blast
  from en obtain cat where cat: "c ''category'' = Some (PStr cat)" "cat \<in> set valid_categories"
    by (auto simp: enumerated_def get_in_def split: option.splits pyval.splits)
  from en obtain pri where pri: "c ''priority'' = Some (PStr pri)" "pri \<in> set valid_priorities"
    by (auto simp: enumerated_def get_in_def split: option.splits pyval.splits)
  from en obtain sen where sen: "c ''sentiment'' = Some (PStr sen)" "sen \<in> set valid_sentiments"
    by (auto simp: enumerated_def get_in_def split: option.splits pyval.splits)
  show ?thesis
  proof (intro exI conjI)
    show "classify_complaint reply e = Inr c" by (fact c)
    show "c ''category'' = Some (PStr cat)" by (fact cat(1))
    show "cat \<in> {''Billing Issue'', ''Product Defect'', ''Refund Request'', ''Technical Support'',
            ''Delivery Problem'', ''Account Issue'', ''General Inquiry''}"
      using cat(2) by (simp add: valid_categories_def)
    show "c ''priority'' = Some (PStr pri)" by (fact pri(1))
    show "pri \<in> {''Urgent'', ''High'', ''Medium'', ''Low''}"
      using pri(2) by (simp add: valid_priorities_def)
    show "c ''sentiment'' = Some (PStr sen)" by (fact sen(1))
    show "sen \<in> {''Angry'', ''Frustrated'', ''Neutral'', ''Satisfied''}"
      using sen(2) by (simp add: valid_sentiments_def)
  qed
qed

subsection \<open>The catch-all handler\<close>



















subsection \<open>The fallback on the billing example\<close>

lemma unusual_charge_text:
  "lower (entity_text unusual_charge) =
     ''unusual charge charged $150 for a service i never ordered. unacceptable.''"
  by code_simp

lemma unusual_charge_category:
  "fallback_category ''unusual charge charged $150 for a service i never ordered. unacceptable.''
     = ''Billing Issue''"
  by code_simp

lemma unusual_charge_priority:
  "fallback_priority ''unusual charge charged $150 for a service i never ordered. unacceptable.''
     = ''Medium''"
  by code_simp

lemma unusual_charge_sentiment:
  "fallback_sentiment ''unusual charge charged $150 for a service i never ordered. unacceptable.''
     = ''Angry''"
  by code_simp

lemma unusual_charge_entities:
  "extract_additional_entities unusual_charge [] =
     [(''order_number'', PStr ''ed''), (''amount'', PStr ''$150'')]"
  by code_simp

text \<open>
  C2, as stated, fails: with the service unavailable the fallback gives the billing
  example the priority Medium, not Urgent. The word "unacceptable" is in the
  fallback's list for the sentiment Angry and in none of its priority lists.
\<close>

theorem unusual_charge_priority_not_urgent:
  "classify_complaint CallFails unusual_charge = Inr (get_fallback_classification unusual_charge) \<and>
   get_fallback_classification unusual_charge ''priority'' \<noteq> Some (PStr ''Urgent'')"
  by (simp add: classify_complaint_def classify_try_def get_fallback_classification_def Let_def
        unusual_charge_text unusual_charge_priority)

text \<open>
  C2, amended. For the billing example with the service unavailable the fallback
  classifier returns category Billing Issue, priority Medium, sentiment Angry, and the
  extracted amount is "$150".
\<close>

theorem unusual_charge_fallback:
  "classify_complaint CallFails unusual_charge = Inr (get_fallback_classification unusual_charge) \<and>
   get_fallback_classification unusual_charge ''category'' = Some (PStr ''Billing Issue'') \<and>
   get_fallback_classification unusual_charge ''priority'' = Some (PStr ''Medium'') \<and>
   get_fallback_classification unusual_charge ''sentiment'' = Some (PStr ''Angry'') \<and>
   get_fallback_classification unusual_charge ''key_entities'' =
     Some (PDict [(''order_number'', PStr ''ed''), (''amount'', PStr ''$150'')]) \<and>
   map_of [(''order_number'', PStr ''ed''), (''amount'', PStr ''$150'')] ''amount'' =
     Some (PStr ''$150'')"
  by (simp add: classify_complaint_def classify_try_def get_fallback_classification_def Let_def
        unusual_charge_text unusual_charge_category unusual_charge_priority
        unusual_charge_sentiment unusual_charge_entities)

subsection \<open>Entity extraction\<close>

text \<open>
  The loop keeps the first pattern, in the order of the list, that matches: when no true
  order number is present yet, the result of the loop is the group of the first pattern
  with a match, and the entities are unchanged when no pattern matches.
\<close>

lemma probe_order_first_match:
  "\<not> truthy_get (map_of entities ''order_number'') \<Longrightarrow>
   probe_order ps text entities =
     (case List.find (\<lambda>p. search p text \<noteq> None) ps of
        None \<Rightarrow> entities
      | Some p \<Rightarrow> AList.update ''order_number'' (PStr (the (search p text))) entities)"
  by (induction ps) (auto split: option.splits)

lemma order_issue_entities:
  "extract_additional_entities order_issue [] =
     [(''order_number'', PStr ''12345''), (''phone_number'', PStr '' (555) 123-4567'')]"
  by code_simp

text \<open>
  C9, at the e-mail of the repository's own test \<open>test_entity_extraction\<close>: the order
  number is "12345", taken by the first pattern, but the phone number is
  " (555) 123-4567" with the blank before the bracket, because the pattern's group
  starts with an optional separator; the test and the claim expect "(555) 123-4567".
\<close>

theorem order_issue_phone_number_has_leading_blank:
  "map_of (extract_additional_entities order_issue []) ''order_number'' = Some (PStr ''12345'') \<and>
   search (hd order_patterns) (entity_text order_issue) = Some ''12345'' \<and>
   map_of (extract_additional_entities order_issue []) ''phone_number''
     = Some (PStr '' (555) 123-4567'') \<and>
   map_of (extract_additional_entities order_issue []) ''phone_number''
     \<noteq> Some (PStr ''(555) 123-4567'')"
proof -
  have "search (hd order_patterns) (entity_text order_issue) = Some ''12345''"
    by code_simp
  then show ?thesis by (simp add: order_issue_entities)
qed

section \<open>Properties of the router\<close>

lemma dict_get_hashable:
  "hashable k \<Longrightarrow> \<exists>v. dict_get table k dflt = Inr v"
  by (cases k) (auto simp: dict_get_def split: option.splits)

lemma dict_get_str:
  "dict_get table (PStr s) dflt = Inr (case table s of None \<Rightarrow> dflt | Some v \<Rightarrow> v)"
  by (simp add: dict_get_def split: option.splits)


text \<open>What \<open>route_complaint\<close> returns when neither lookup raises.\<close>

lemma route_complaint_routed:
  assumes "hashable (get_or (cd ''category'') (PStr ''General Inquiry''))"
      and "hashable (get_or (cd ''priority'') (PStr ''Medium''))"
  obtains team actions address where
    "determine_assigned_team (get_or (cd ''category'') (PStr ''General Inquiry'')) = Inr team"
    "determine_escalation_actions (get_or (cd ''priority'') (PStr ''Medium'')) = Inr actions"
    "route_complaint cfg clock cd =
       (\<lparr> complaint_id = get_or (cd ''id'') PNone,
          assigned_team = team,
          team_email = address,
          priority = get_or (cd ''priority'') (PStr ''Medium''),
          escalation_actions = actions,
          routing_timestamp = clock,
          status = ''routed'' \<rparr>,
        cd(''assigned_team'' \<mapsto> PStr team))"
proof -
  have "\<exists>team. determine_assigned_team (get_or (cd ''category'') (PStr ''General Inquiry'')) = Inr team"
    unfolding determine_assigned_team_def by (rule dict_get_hashable [OF assms(1)])
  then obtain team where t: "determine_assigned_team (get_or (cd ''category'') (PStr ''General Inquiry'')) = Inr team" ..
  have "\<exists>actions. determine_escalation_actions (get_or (cd ''priority'') (PStr ''Medium'')) = Inr actions"
    unfolding determine_escalation_actions_def by (rule dict_get_hashable [OF assms(2)])
  then obtain actions where a: "determine_escalation_actions (get_or (cd ''priority'') (PStr ''Medium'')) = Inr actions" ..
  have "\<exists>address. get_team_email cfg (get_or (cd ''category'') (PStr ''General Inquiry'')) = Inr address"
    unfolding get_team_email_def by (rule dict_get_hashable [OF assms(1)])
  then obtain address where m: "get_team_email cfg (get_or (cd ''category'') (PStr ''General Inquiry'')) = Inr address" ..
  have "route_complaint cfg clock cd =
       (\<lparr> complaint_id = get_or (cd ''id'') PNone,
          assigned_team = team,
          team_email = address,
          priority = get_or (cd ''priority'') (PStr ''Medium''),
          escalation_actions = actions,
          routing_timestamp = clock,
          status = ''routed'' \<rparr>,
        cd(''assigned_team'' \<mapsto> PStr team))"
    unfolding route_complaint_def Let_def by (simp add: t a m)
  then show ?thesis by (rule that [OF t a])
qed

text \<open>
  C10. A category string outside the seven categories is routed to the General Support
  Team, a priority string outside the four priorities gets the escalation actions
  [team], and in both cases the status is 'routed', not 'routed_fallback'. (The other
  of the two fields is any value that can be looked up in a table: a string, a number,
  a boolean, \<open>None\<close>, or missing.)
\<close>

theorem unrecognised_values_take_table_defaults:
  "(cd ''category'' = Some (PStr c) \<and>
    c \<notin> {''Billing Issue'', ''Product Defect'', ''Refund Request'', ''Technical Support'',
          ''Delivery Problem'', ''Account Issue'', ''General Inquiry''} \<and>
    hashable (get_or (cd ''priority'') (PStr ''Medium''))
    \<longrightarrow> assigned_team (fst (route_complaint cfg clock cd)) = ''General Support Team'' \<and>
        status (fst (route_complaint cfg clock cd)) = ''routed'')
   \<and>
   (cd ''priority'' = Some (PStr p) \<and>
    p \<notin> {''Urgent'', ''High'', ''Medium'', ''Low''} \<and>
    hashable (get_or (cd ''category'') (PStr ''General Inquiry''))
    \<longrightarrow> escalation_actions (fst (route_complaint cfg clock cd)) = [''team''] \<and>
        status (fst (route_complaint cfg clock cd)) = ''routed'')"
proof (intro conjI impI)
  assume h: "cd ''category'' = Some (PStr c) \<and>
    c \<notin> {''Billing Issue'', ''Product Defect'', ''Refund Request'', ''Technical Support'',
          ''Delivery Problem'', ''Account Issue'', ''General Inquiry''} \<and>
    hashable (get_or (cd ''priority'') (PStr ''Medium''))"
  then have hc: "hashable (get_or (cd ''category'') (PStr ''General Inquiry''))"
    by (simp add: get_or_def)
  from h have team: "determine_assigned_team (get_or (cd ''category'') (PStr ''General Inquiry''))
                       = Inr ''General Support Team''"
    by (simp add: get_or_def determine_assigned_team_def dict_get_str)
  from h have hp: "hashable (get_or (cd ''priority'') (PStr ''Medium''))" by simp
  from hc hp obtain t a m where
      t: "determine_assigned_team (get_or (cd ''category'') (PStr ''General Inquiry'')) = Inr t"
    and r: "route_complaint cfg clock cd =
       (\<lparr> complaint_id = get_or (cd ''id'') PNone, assigned_team = t, team_email = m,
          priority = get_or (cd ''priority'') (PStr ''Medium''), escalation_actions = a,
          routing_timestamp = clock, status = ''routed'' \<rparr>,
        cd(''assigned_team'' \<mapsto> PStr t))"
    by (rule route_complaint_routed [where cd = cd and cfg = cfg and clock = clock])
  from t team have "t = ''General Support Team''" by simp
  with r show "assigned_team (fst (route_complaint cfg clock cd)) = ''General Support Team''"
    and "status (fst (route_complaint cfg clock cd)) = ''routed''"
    by simp_all
next
  assume h: "cd ''priority'' = Some (PStr p) \<and>
    p \<notin> {''Urgent'', ''High'', ''Medium'', ''Low''} \<and>
    hashable (get_or (cd ''category'') (PStr ''General Inquiry''))"
  then have hp: "hashable (get_or (cd ''priority'') (PStr ''Medium''))"
    by (simp add: get_or_def)
  from h have acts: "determine_escalation_actions (get_or (cd ''priority'') (PStr ''Medium''))
                       = Inr [''team'']"
    by (simp add: get_or_def determine_escalation_actions_def escalation_rules_def dict_get_str)
  from h have hc: "hashable (get_or (cd ''category'') (PStr ''General Inquiry''))" by simp
  from hc hp obtain t a m where
      a: "determine_escalation_actions (get_or (cd ''priority'') (PStr ''Medium'')) = Inr a"
    and r: "route_complaint cfg clock cd =
       (\<lparr> complaint_id = get_or (cd ''id'') PNone, assigned_team = t, team_email = m,
          priority = get_or (cd ''priority'') (PStr ''Medium''), escalation_actions = a,
          routing_timestamp = clock, status = ''routed'' \<rparr>,
        cd(''assigned_team'' \<mapsto> PStr t))"
    by (rule route_complaint_routed [where cd = cd and cfg = cfg and clock = clock])
  from a acts have "a = [''team'']" by simp
  with r show "escalation_actions (fst (route_complaint cfg clock cd)) = [''team'']"
    and "status (fst (route_complaint cfg clock cd)) = ''routed''"
    by simp_all
qed

theorem unrecognised_values_take_table_defaults_witness:
  "assigned_team (fst (route_complaint default_config ''2024-01-01T00:00:00'' unknown_values_complaint))
     = ''General Support Team'' \<and>
   escalation_actions (fst (route_complaint default_config ''2024-01-01T00:00:00'' unknown_values_complaint))
     = [''team''] \<and>
   status (fst (route_complaint default_config ''2024-01-01T00:00:00'' unknown_values_complaint))
     = ''routed''"
  using unrecognised_values_take_table_defaults
          [where cd = unknown_values_complaint and c = "''Spam''" and p = "''Whenever''"
             and cfg = default_config and clock = "''2024-01-01T00:00:00''"]
  by (simp add: unknown_values_complaint_def get_or_def)






section \<open>Properties of the notifications\<close>

lemma smtp_sends_append: "smtp_sends (es @ fs) = smtp_sends es @ smtp_sends fs"
  by (induction es rule: smtp_sends.induct) simp_all


lemma high_routing_is_routed:
  "fst (route_complaint default_config ''2024-01-01T00:00:00'' high_complaint) = high_routing"
  by (simp add: route_complaint_def Let_def high_complaint_def high_routing_def get_or_def
        determine_assigned_team_def determine_escalation_actions_def escalation_rules_def
        get_team_email_def team_mapping_def dict_get_str default_config_def)

subsection \<open>E-mail to the team and to the manager\<close>

text \<open>With a body that is a string, the team notification is built and handed to SMTP.\<close>

lemma team_text_built:
  "cd ''body'' = Some (PStr b) \<Longrightarrow> \<exists>text. create_team_notification_text ev cd = Inr text"
  by (simp add: create_team_notification_text_def get_or_def)

lemma email_send_team_notification_sends:
  assumes "cd ''body'' = Some (PStr b)"
  shows "\<exists>m. email_send_team_notification ev address cd w = (smtp_ok ev m, log_event (SmtpSend m) w)
             \<and> mail_to m = PStr address
             \<and> mail_subject m = ''New '' @ fmt ev (get_or (cd ''priority'') (PStr ''Medium''))
                                  @ '' Priority Complaint - #''
                                  @ fmt ev (get_or (cd ''id'') (PStr ''TBD''))"
proof -
  from team_text_built [where cd = cd and ev = ev, OF assms] obtain lines where l: "create_team_notification_text ev cd = Inr lines" ..
  define m where "m = \<lparr> mail_to = PStr address,
                      mail_subject = ''New '' @ fmt ev (get_or (cd ''priority'') (PStr ''Medium''))
                                     @ '' Priority Complaint - #''
                                     @ fmt ev (get_or (cd ''id'') (PStr ''TBD'')),
                      mail_text = lines \<rparr>"
  have "email_send_team_notification ev address cd w = (smtp_ok ev m, log_event (SmtpSend m) w)"
    unfolding email_send_team_notification_def Let_def m_def by (simp add: l)
  moreover have "mail_to m = PStr address" by (simp add: m_def)
  moreover have "mail_subject m = ''New '' @ fmt ev (get_or (cd ''priority'') (PStr ''Medium''))
                                  @ '' Priority Complaint - #''
                                  @ fmt ev (get_or (cd ''id'') (PStr ''TBD''))"
    by (simp add: m_def)
  ultimately show ?thesis by (intro exI [of _ m] conjI)
qed



text \<open>
  The manager is written to exactly when 'manager' is among the escalation actions, and
  what is sent then is the team notification with the complaint data.
\<close>

lemma send_escalation_notifications_is_team_mail:
  "send_escalation_notifications cfg ev rr cd w =
     (if ''manager'' \<in> set (escalation_actions rr)
      then email_send_team_notification ev (manager_email cfg) cd w
      else (True, w))"
  by (simp add: send_escalation_notifications_def Let_def)

lemma high_escalation_sends:
  "smtp_sends (trace (snd (send_escalation_notifications default_config service_down
                             high_routing high_complaint empty_world)))
     = smtp_sends (trace (snd (email_send_team_notification service_down ''manager@company.com''
                             high_complaint empty_world)))"
  by (simp add: send_escalation_notifications_is_team_mail high_routing_def default_config_def)

lemma high_manager_mail_to:
  "map mail_to (smtp_sends (trace (snd (email_send_team_notification service_down
                   ''manager@company.com'' high_complaint empty_world))))
     = [PStr ''manager@company.com'']"
  by code_simp

lemma high_manager_mail_subject:
  "map mail_subject (smtp_sends (trace (snd (email_send_team_notification service_down
                   ''manager@company.com'' high_complaint empty_world))))
     = [''New High Priority Complaint - #1'']"
  by code_simp

lemma high_manager_mail_text:
  "\<not> list_ex (contains ''Complaint escalated due to High priority level'')
       (concat (map mail_text (smtp_sends (trace (snd (email_send_team_notification service_down
                   ''manager@company.com'' high_complaint empty_world))))))"
  by code_simp

lemma high_manager_notification_subject:
  "create_manager_notification service_down high_routing high_complaint ''subject''
     = Some (PStr ''ESCALATION: High Priority Complaint - #1'')"
  by code_simp

lemma high_manager_notification_reason:
  "create_manager_notification service_down high_routing high_complaint ''escalation_reason''
     = Some (PStr ''Complaint escalated due to High priority level'')"
  by code_simp

text \<open>
  C4, at a High priority complaint, whose escalation actions are [manager]: one message
  goes to the manager, as the claim says, but it is the team notification. Its subject
  is "New High Priority Complaint - #1", not prefixed "ESCALATION:", and no line of its
  text holds the escalation reason. The notification that \<open>_create_manager_notification\<close>
  builds has both, and is not the one that is sent.
\<close>

theorem manager_is_sent_the_team_notification:
  "''manager'' \<in> set (escalation_actions high_routing) \<and>
   map mail_to (smtp_sends (trace (snd (send_escalation_notifications default_config service_down
                   high_routing high_complaint empty_world))))
     = [PStr ''manager@company.com''] \<and>
   map mail_subject (smtp_sends (trace (snd (send_escalation_notifications default_config service_down
                   high_routing high_complaint empty_world))))
     = [''New High Priority Complaint - #1''] \<and>
   \<not> starts_with ''ESCALATION:'' ''New High Priority Complaint - #1'' \<and>
   \<not> list_ex (contains ''Complaint escalated due to High priority level'')
       (concat (map mail_text (smtp_sends (trace (snd (send_escalation_notifications default_config
                   service_down high_routing high_complaint empty_world)))))) \<and>
   create_manager_notification service_down high_routing high_complaint ''subject''
     = Some (PStr ''ESCALATION: High Priority Complaint - #1'') \<and>
   create_manager_notification service_down high_routing high_complaint ''escalation_reason''
     = Some (PStr ''Complaint escalated due to High priority level'')"
proof (intro conjI)
  show "''manager'' \<in> set (escalation_actions high_routing)"
    by (simp add: high_routing_def)
  show "\<not> starts_with ''ESCALATION:'' ''New High Priority Complaint - #1''"
    by simp
qed (simp_all only: high_escalation_sends high_manager_mail_to high_manager_mail_subject
       high_manager_mail_text high_manager_notification_subject
       high_manager_notification_reason not_False_eq_True)

subsection \<open>What the fan-out reports\<close>

lemma flags_all_delivered:
  "fst (team_notification_flags default_config service_down high_routing high_complaint empty_world)
     = (True, True, True)"
  by code_simp

lemma flags_slack_and_manager_failed:
  "fst (team_notification_flags default_config slack_and_manager_fail high_routing high_complaint
          empty_world)
     = (True, False, False)"
  by code_simp

lemma send_team_notification_flags:
  "fst (send_team_notification cfg ev rr cd w) = fst (fst (team_notification_flags cfg ev rr cd w))"
  by (simp add: send_team_notification_def split_beta)

text \<open>
  C5, as stated, fails: the result of \<open>send_team_notification\<close> is one boolean. For the
  High priority complaint it is \<open>True\<close> both when every channel delivers and when Slack
  and the manager's mail fail, so the failure of those channels is not in the result.
\<close>

theorem fan_out_result_hides_slack_and_escalation:
  "fst (send_team_notification default_config service_down high_routing high_complaint empty_world)
     = True \<and>
   fst (send_team_notification default_config slack_and_manager_fail high_routing high_complaint
          empty_world)
     = True \<and>
   fst (team_notification_flags default_config service_down high_routing high_complaint empty_world)
     = (True, True, True) \<and>
   fst (team_notification_flags default_config slack_and_manager_fail high_routing high_complaint
          empty_world)
     = (True, False, False)"
  by (simp add: send_team_notification_flags flags_all_delivered flags_slack_and_manager_failed)

text \<open>
  C5, amended. The notification fan-out reports a single flag: \<open>send_team_notification\<close>
  returns the success of the team e-mail and nothing else; the Slack and the escalation
  flags are computed (and logged) but are not part of the result.
\<close>

theorem fan_out_reports_team_email_only:
  "fst (send_team_notification cfg ev rr cd w)
     = fst (email_send_team_notification ev (team_email rr) cd w)"
  by (simp add: send_team_notification_def team_notification_flags_def split_beta Let_def)

subsection \<open>Slack\<close>







section \<open>Properties of processing one complaint\<close>

lemma db_log_event: "db (log_event ev w) = db w"
  by (simp add: log_event_def)

lemma trace_log_event: "trace (log_event ev w) = trace w @ [ev]"
  by (simp add: log_event_def)

text \<open>
  A complaint whose key has a row is skipped: the lookup is the only thing that
  happens. The classifier is not called, nothing is inserted, nothing is sent, and the
  result does not depend on the service.
\<close>

lemma existing_complaint_is_skipped:
  assumes "get_complaint_by_email_id (db w) (get_str (email_id e) ''unknown'') = Some r"
  shows "process_single_complaint cfg ev e w =
           (Inr \<lparr> classified = 0, routed = 0, notifications_sent = 0 \<rparr>,
            log_event (DbLookup (get_str (email_id e) ''unknown'')) w)"
  unfolding process_single_complaint_def Let_def
  by (simp add: db_log_event assms)

text \<open>
  A new complaint with the service down: the fallback classification has no
  \<open>assigned_team\<close>, which \<open>insert_complaint\<close> reads before the router has set it.
\<close>

lemma insert_params_without_team:
  assumes "cd ''email_id'' = Some a" "cd ''customer_email'' = Some b" "cd ''subject'' = Some c"
          "cd ''body'' = Some d" "cd ''category'' = Some f" "cd ''priority'' = Some g"
          "cd ''assigned_team'' = None"
  shows "insert_params cd = Inl (KeyError ''assigned_team'')"
  by (simp add: insert_params_def assms)

lemma fallback_complaint_data:
  fixes e :: email_data and key :: string
  defines "cd \<equiv> [ ''email_id'' \<mapsto> PStr key,
                   ''customer_email'' \<mapsto> PStr (get_str (customer_email e) []),
                   ''subject'' \<mapsto> PStr (get_str (subject e) []),
                   ''body'' \<mapsto> PStr (get_str (body e) []) ] ++ get_fallback_classification e"
  shows "insert_params cd = Inl (KeyError ''assigned_team'')"
proof -
  have "cd ''assigned_team'' = None"
    by (simp add: cd_def map_add_def get_fallback_classification_def Let_def)
  moreover have "\<exists>v. cd ''email_id'' = Some v"
    by (simp add: cd_def map_add_def get_fallback_classification_def Let_def)
  moreover have "\<exists>v. cd ''customer_email'' = Some v"
    by (simp add: cd_def map_add_def get_fallback_classification_def Let_def)
  moreover have "\<exists>v. cd ''subject'' = Some v"
    by (simp add: cd_def map_add_def get_fallback_classification_def Let_def)
  moreover have "\<exists>v. cd ''body'' = Some v"
    by (simp add: cd_def map_add_def get_fallback_classification_def Let_def)
  moreover have "\<exists>v. cd ''category'' = Some v"
    by (simp add: cd_def map_add_def get_fallback_classification_def Let_def)
  moreover have "\<exists>v. cd ''priority'' = Some v"
    by (simp add: cd_def map_add_def get_fallback_classification_def Let_def)
  ultimately show ?thesis
    by (elim exE) (rule insert_params_without_team)
qed

lemma new_complaint_with_service_down_raises:
  assumes "get_complaint_by_email_id (db w) (get_str (email_id e) ''unknown'') = None"
      and "claude ev = CallFails"
  shows "process_single_complaint cfg ev e w =
           (Inl (KeyError ''assigned_team''),
            log_event DbInsert (log_event ClassifierCall
              (log_event (DbLookup (get_str (email_id e) ''unknown'')) w)))"
proof -
  have c: "classify_complaint CallFails e = Inr (get_fallback_classification e)"
    by (simp add: classify_complaint_def classify_try_def)
  have i: "insert_complaint (now ev)
             ([ ''email_id'' \<mapsto> PStr (get_str (email_id e) ''unknown''),
                ''customer_email'' \<mapsto> PStr (get_str (customer_email e) []),
                ''subject'' \<mapsto> PStr (get_str (subject e) []),
                ''body'' \<mapsto> PStr (get_str (body e) []) ] ++ get_fallback_classification e)
             (db w)
           = Inl (KeyError ''assigned_team'')"
    unfolding insert_complaint_def by (simp only: fallback_complaint_data sum.case)
  show ?thesis
    unfolding process_single_complaint_def Let_def
    by (simp only: db_log_event assms c i option.case sum.case)
qed

lemma empty_table_has_no_complaint:
  "rows (db w) = [] \<Longrightarrow> get_complaint_by_email_id (db w) key = None"
  by (simp add: get_complaint_by_email_id_def)

text \<open>
  C6, at a new e-mail processed twice while the service is down: the first run raises
  KeyError 'assigned_team' at the insert, so no row is stored and nothing is sent; the
  second run finds no row, classifies again and raises again. After both runs the
  table is empty and no notification has gone out, where the claim has exactly one
  record and one notification fan-out.
\<close>

theorem new_complaint_processed_twice_is_never_stored:
  "fst (process_single_complaint default_config service_down billing_question empty_world)
     = Inl (KeyError ''assigned_team'') \<and>
   fst (process_single_complaint default_config service_down billing_question
          (snd (process_single_complaint default_config service_down billing_question empty_world)))
     = Inl (KeyError ''assigned_team'') \<and>
   rows (db (snd (process_single_complaint default_config service_down billing_question
          (snd (process_single_complaint default_config service_down billing_question empty_world)))))
     = [] \<and>
   trace (snd (process_single_complaint default_config service_down billing_question
          (snd (process_single_complaint default_config service_down billing_question empty_world))))
     = [DbLookup ''<m2@example.com>'', ClassifierCall, DbInsert,
        DbLookup ''<m2@example.com>'', ClassifierCall, DbInsert]"
proof -
  have down: "claude service_down = CallFails"
    by (simp add: service_down_def)
  have key: "get_str (email_id billing_question) ''unknown'' = ''<m2@example.com>''"
    by (simp add: billing_question_def get_str_def)
  have r0: "rows (db empty_world) = []" and t0: "trace empty_world = []"
    by (simp_all add: empty_world_def)
  have first: "process_single_complaint default_config service_down billing_question empty_world =
           (Inl (KeyError ''assigned_team''),
            log_event DbInsert (log_event ClassifierCall
              (log_event (DbLookup ''<m2@example.com>'') empty_world)))"
    using new_complaint_with_service_down_raises
            [where w = empty_world and e = billing_question and ev = service_down
               and cfg = default_config,
             OF empty_table_has_no_complaint [OF r0] down]
    by (simp only: key)
  define w1 where "w1 = log_event DbInsert (log_event ClassifierCall
              (log_event (DbLookup ''<m2@example.com>'') empty_world))"
  have r1: "rows (db w1) = []"
    by (simp add: w1_def db_log_event r0)
  have t1: "trace w1 = [DbLookup ''<m2@example.com>'', ClassifierCall, DbInsert]"
    by (simp add: w1_def trace_log_event t0)
  have second: "process_single_complaint default_config service_down billing_question w1 =
           (Inl (KeyError ''assigned_team''),
            log_event DbInsert (log_event ClassifierCall
              (log_event (DbLookup ''<m2@example.com>'') w1)))"
    using new_complaint_with_service_down_raises
            [where w = w1 and e = billing_question and ev = service_down
               and cfg = default_config,
             OF empty_table_has_no_complaint [OF r1] down]
    by (simp only: key)
  show ?thesis
    unfolding first [folded w1_def] snd_conv fst_conv second
    by (simp add: db_log_event trace_log_event r1 t1)
qed

end
